theory Spec2Isabelle
  imports Complex_Main "HOL-Library.Multiset"
begin

section \<open>Values exchanged with the handlers\<close>

text \<open>
  A field of a parsed JSON request body is absent (\<open>undefined\<close>), \<open>null\<close> or a
  string. A column of a stored row is \<open>NULL\<close> (\<open>None\<close>) or holds a value.
  Time stamps are instants counted as natural numbers; identifiers and wallet addresses
  are strings. Finite JavaScript numbers are modelled by the rationals they denote.
\<close>

datatype jsval = Undefined | Null | Str string

text \<open>JavaScript truthiness of a value that is \<open>null\<close> or a string.\<close>

fun truthy :: "string option \<Rightarrow> bool" where
  "truthy None = False"
| "truthy (Some s) = (s \<noteq> [])"

text \<open>
  What a body field writes into a column. An insert sends every listed column, so an
  absent field is stored as \<open>NULL\<close>; an update drops absent keys from the patch, so
  the column keeps its value.
\<close>

fun insert_column :: "jsval \<Rightarrow> string option" where
  "insert_column Undefined = None"
| "insert_column Null = None"
| "insert_column (Str s) = Some s"

fun patch_column :: "jsval \<Rightarrow> string option \<Rightarrow> string option" where
  "patch_column Undefined old = old"
| "patch_column Null old = None"
| "patch_column (Str s) old = Some s"

datatype 'p response = Success 'p | Failure nat string

fun status :: "'p response \<Rightarrow> nat" where
  "status (Success p) = 200"
| "status (Failure n msg) = n"

section \<open>Stored rows\<close>

record user =
  uid :: string
  wallet_address :: string
  name :: "string option"
  email :: "string option"
  role :: "string option"
  specialization :: "string option"
  license_number :: "string option"
  hospital :: "string option"
  is_verified :: bool
  created_at :: nat
  last_login_at :: "nat option"

record health_record =
  hr_id :: string
  hr_patient_id :: "string option"
  heart_rate :: "rat option"
  blood_pressure :: "string option"
  temperature :: "rat option"
  weight :: "rat option"
  height :: "rat option"
  recorded_at :: nat

record medical_record =
  mr_id :: string
  mr_patient_id :: "string option"
  mr_doctor_id :: "string option"
  record_type :: "string option"
  title :: "string option"
  description :: "string option"
  file_name :: "string option"
  file_size :: "nat option"
  ipfs_hash :: "string option"
  mr_created_at :: nat

record anemia_analysis =
  aa_id :: string
  aa_patient_id :: string
  analysis_type :: string
  prediction :: string
  confidence :: rat
  roi_detected :: bool
  image_data :: string
  aa_created_at :: nat

section \<open>The persistence gateway\<close>

text \<open>
  The handlers talk to a hosted relational store through a client library that is not
  part of the repository. The store is modelled as four tables (lists of rows, in
  insertion order) and a log of the requests it received; whatever else decides a call
  is an input: the instant of the call, the identifier the store generates for a new
  row, the two draws of the random source, and a fault (an error code) that the store
  may answer a read or a write with instead of serving it.
\<close>

datatype pg_error = PgError (code: string)

type_synonym 'r pg_result = "'r option \<times> pg_error option"

datatype gw_request = SelectReq string | InsertReq string | UpdateReq string

record db =
  users :: "user list"
  health_records :: "health_record list"
  medical_records :: "medical_record list"
  anemia_analyses :: "anemia_analysis list"
  gw_log :: "gw_request list"

record env =
  now :: nat
  fresh_id :: string
  read_fault :: "string option"
  write_fault :: "string option"
  random_1 :: rat
  random_2 :: rat

text \<open>
  Modelled from the spec: the gateway's single-row answer. A fault is returned as it
  is; otherwise exactly one row is the data, and any other number of rows is the
  row-not-found sentinel, error code \<open>PGRST116\<close>, with no data.
\<close>

definition single :: "string option \<Rightarrow> 'r list \<Rightarrow> 'r pg_result" where
  "single fault rows =
     (case fault of
        Some c \<Rightarrow> (None, Some (PgError c))
      | None \<Rightarrow> (case rows of
                  [r] \<Rightarrow> (Some r, None)
                | _ \<Rightarrow> (None, Some (PgError ''PGRST116''))))"

text \<open>Modelled from the spec: the gateway's answer to a select of many rows.\<close>

definition many :: "string option \<Rightarrow> 'r list \<Rightarrow> 'r list option \<times> pg_error option" where
  "many fault rows =
     (case fault of
        Some c \<Rightarrow> (None, Some (PgError c))
      | None \<Rightarrow> (Some rows, None))"

text \<open>Modelled from the spec: ordering by one column, descending.\<close>

definition order_desc :: "('r \<Rightarrow> nat) \<Rightarrow> 'r list \<Rightarrow> 'r list" where
  "order_desc key rows = rev (sort_key key rows)"

definition logged :: "gw_request \<Rightarrow> db \<Rightarrow> db" where
  "logged rq d = d\<lparr>gw_log := gw_log d @ [rq]\<rparr>"

text \<open>
  Modelled from the spec: \<open>select(users, wallet_address = w)\<close> answered as a single
  row.
\<close>

definition users_select_single :: "env \<Rightarrow> string \<Rightarrow> db \<Rightarrow> user pg_result \<times> db" where
  "users_select_single e w d =
     (single (read_fault e) (filter (\<lambda>u. wallet_address u = w) (users d)),
      logged (SelectReq ''users'') d)"

text \<open>Modelled from the spec: all users, newest first.\<close>

definition users_select_all :: "env \<Rightarrow> db \<Rightarrow> (user list option \<times> pg_error option) \<times> db" where
  "users_select_all e d =
     (many (read_fault e) (order_desc created_at (users d)),
      logged (SelectReq ''users'') d)"

text \<open>
  Modelled from the spec: \<open>update(users, wallet_address = w, patch)\<close> answered as a
  single row. The patch is applied when exactly one row matches; with no match, or
  several, the store changes nothing and answers with the sentinel.
\<close>

definition users_update_single ::
  "env \<Rightarrow> string \<Rightarrow> (user \<Rightarrow> user) \<Rightarrow> db \<Rightarrow> user pg_result \<times> db" where
  "users_update_single e w patch d =
     (let d1 = logged (UpdateReq ''users'') d in
      case write_fault e of
        Some c \<Rightarrow> ((None, Some (PgError c)), d1)
      | None \<Rightarrow>
          (case filter (\<lambda>u. wallet_address u = w) (users d) of
             [u] \<Rightarrow> ((Some (patch u), None),
                     d1\<lparr>users := map (\<lambda>x. if wallet_address x = w then patch x else x) (users d)\<rparr>)
           | _ \<Rightarrow> ((None, Some (PgError ''PGRST116'')), d1)))"

text \<open>
  Modelled from the spec: \<open>insert(table, row)\<close> answered as a single row, for each
  of the four tables. A served insert appends the row; a fault leaves the table as it
  was. Either way the request is logged.
\<close>

definition users_insert_single :: "env \<Rightarrow> user \<Rightarrow> db \<Rightarrow> user pg_result \<times> db" where
  "users_insert_single e row d =
     (let d1 = logged (InsertReq ''users'') d in
      case write_fault e of
        Some c \<Rightarrow> ((None, Some (PgError c)), d1)
      | None \<Rightarrow> ((Some row, None), d1\<lparr>users := users d @ [row]\<rparr>))"

definition health_records_insert_single ::
  "env \<Rightarrow> health_record \<Rightarrow> db \<Rightarrow> health_record pg_result \<times> db" where
  "health_records_insert_single e row d =
     (let d1 = logged (InsertReq ''health_records'') d in
      case write_fault e of
        Some c \<Rightarrow> ((None, Some (PgError c)), d1)
      | None \<Rightarrow> ((Some row, None), d1\<lparr>health_records := health_records d @ [row]\<rparr>))"

definition medical_records_insert_single ::
  "env \<Rightarrow> medical_record \<Rightarrow> db \<Rightarrow> medical_record pg_result \<times> db" where
  "medical_records_insert_single e row d =
     (let d1 = logged (InsertReq ''medical_records'') d in
      case write_fault e of
        Some c \<Rightarrow> ((None, Some (PgError c)), d1)
      | None \<Rightarrow> ((Some row, None), d1\<lparr>medical_records := medical_records d @ [row]\<rparr>))"

definition anemia_analyses_insert_single ::
  "env \<Rightarrow> anemia_analysis \<Rightarrow> db \<Rightarrow> anemia_analysis pg_result \<times> db" where
  "anemia_analyses_insert_single e row d =
     (let d1 = logged (InsertReq ''anemia_analyses'') d in
      case write_fault e of
        Some c \<Rightarrow> ((None, Some (PgError c)), d1)
      | None \<Rightarrow> ((Some row, None), d1\<lparr>anemia_analyses := anemia_analyses d @ [row]\<rparr>))"

text \<open>
  Modelled from the spec: the expansion of a foreign key into the named columns of the
  user it refers to, absent when no user has that identifier.
\<close>

definition patient_ref :: "user list \<Rightarrow> string option \<Rightarrow> (string option \<times> string option) option" where
  "patient_ref us pid =
     (case pid of
        None \<Rightarrow> None
      | Some p \<Rightarrow> map_option (\<lambda>u. (name u, email u)) (find (\<lambda>u. uid u = p) us))"

definition doctor_ref :: "user list \<Rightarrow> string option \<Rightarrow> (string option \<times> string option) option" where
  "doctor_ref us did =
     (case did of
        None \<Rightarrow> None
      | Some p \<Rightarrow> map_option (\<lambda>u. (name u, specialization u)) (find (\<lambda>u. uid u = p) us))"

section \<open>User service\<close>

record login_body =
  lb_wallet_address :: "string option"

text \<open>\<open>POST /users/update-login\<close>.\<close>

definition update_login_POST :: "env \<Rightarrow> login_body \<Rightarrow> db \<Rightarrow> user option response \<times> db" where
  "update_login_POST e body d =
     (if \<not> truthy (lb_wallet_address body)
      then (Failure 400 ''Wallet address is required'', d)
      else
        (case users_update_single e (the (lb_wallet_address body))
                (\<lambda>u. u\<lparr>last_login_at := Some (now e)\<rparr>) d of
           ((data, Some err), d1) \<Rightarrow> (Failure 500 ''Failed to update login'', d1)
         | ((data, None), d1) \<Rightarrow> (Success data, d1)))"

datatype users_payload = OneUser "user option" | AllUsers "user list option"

text \<open>\<open>GET /users\<close>, with the optional \<open>wallet_address\<close> query parameter.\<close>

definition users_GET :: "env \<Rightarrow> string option \<Rightarrow> db \<Rightarrow> users_payload response \<times> db" where
  "users_GET e walletAddress d =
     (if truthy walletAddress
      then
        (case users_select_single e (the walletAddress) d of
           ((usr, Some err), d1) \<Rightarrow>
             (if code err \<noteq> ''PGRST116''
              then (Failure 500 ''Failed to fetch users'', d1)
              else (Success (OneUser usr), d1))
         | ((usr, None), d1) \<Rightarrow> (Success (OneUser usr), d1))
      else
        (case users_select_all e d of
           ((us, Some err), d1) \<Rightarrow> (Failure 500 ''Failed to fetch users'', d1)
         | ((us, None), d1) \<Rightarrow> (Success (AllUsers us), d1)))"

text \<open>\<open>GET /users/{wallet}\<close>.\<close>

definition user_by_wallet_GET :: "env \<Rightarrow> string \<Rightarrow> db \<Rightarrow> user option response \<times> db" where
  "user_by_wallet_GET e wallet d =
     (case users_select_single e wallet d of
        ((usr, Some err), d1) \<Rightarrow>
          (if code err \<noteq> ''PGRST116''
           then (Failure 500 ''Failed to fetch user'', d1)
           else (Success usr, d1))
      | ((usr, None), d1) \<Rightarrow> (Success usr, d1))"

record user_body =
  ub_wallet_address :: string
  ub_name :: jsval
  ub_email :: jsval
  ub_role :: jsval
  ub_specialization :: jsval
  ub_license_number :: jsval
  ub_hospital :: jsval

text \<open>The patch of the update branch and the row of the insert branch.\<close>

definition profile_patch :: "env \<Rightarrow> user_body \<Rightarrow> user \<Rightarrow> user" where
  "profile_patch e body u =
     u\<lparr>name := patch_column (ub_name body) (name u),
       email := patch_column (ub_email body) (email u),
       role := patch_column (ub_role body) (role u),
       specialization := patch_column (ub_specialization body) (specialization u),
       license_number := patch_column (ub_license_number body) (license_number u),
       hospital := patch_column (ub_hospital body) (hospital u),
       is_verified := (ub_role body = Str ''patient''),
       last_login_at := Some (now e)\<rparr>"

definition new_user :: "env \<Rightarrow> user_body \<Rightarrow> user" where
  "new_user e body =
     \<lparr>uid = fresh_id e,
      wallet_address = ub_wallet_address body,
      name = insert_column (ub_name body),
      email = insert_column (ub_email body),
      role = insert_column (ub_role body),
      specialization = insert_column (ub_specialization body),
      license_number = insert_column (ub_license_number body),
      hospital = insert_column (ub_hospital body),
      is_verified = (ub_role body = Str ''patient''),
      created_at = now e,
      last_login_at = None\<rparr>"

text \<open>\<open>POST /users\<close>: look the wallet address up, then update or insert.\<close>

definition users_POST :: "env \<Rightarrow> user_body \<Rightarrow> db \<Rightarrow> (user option \<times> string) response \<times> db" where
  "users_POST e body d =
     (case users_select_single e (ub_wallet_address body) d of
        ((existingUser, checkError), d1) \<Rightarrow>
          if (case checkError of None \<Rightarrow> False | Some err \<Rightarrow> code err \<noteq> ''PGRST116'')
          then (Failure 500 ''Failed to create user'', d1)
          else
            (case existingUser of
               Some x \<Rightarrow>
                 (case users_update_single e (ub_wallet_address body) (profile_patch e body) d1 of
                    ((updatedUser, Some err), d2) \<Rightarrow> (Failure 500 ''Failed to create user'', d2)
                  | ((updatedUser, None), d2) \<Rightarrow>
                      (Success (updatedUser, ''User profile updated successfully''), d2))
             | None \<Rightarrow>
                 (case users_insert_single e (new_user e body) d1 of
                    ((newUser, Some err), d2) \<Rightarrow> (Failure 500 ''Failed to create user'', d2)
                  | ((newUser, None), d2) \<Rightarrow>
                      (Success (newUser, ''User created successfully''), d2))))"

section \<open>Record services\<close>

record health_body =
  hb_patient_id :: "string option"
  hb_heart_rate :: "rat option"
  hb_blood_pressure :: "string option"
  hb_temperature :: "rat option"
  hb_weight :: "rat option"
  hb_height :: "rat option"

text \<open>\<open>GET /health-records\<close>, each row with its patient expanded.\<close>

definition health_records_GET ::
  "env \<Rightarrow> string option \<Rightarrow> db \<Rightarrow>
   (health_record \<times> (string option \<times> string option) option) list option response \<times> db" where
  "health_records_GET e patientId d =
     (let rows = (if truthy patientId
                  then filter (\<lambda>r. hr_patient_id r = patientId) (health_records d)
                  else health_records d);
          d1 = logged (SelectReq ''health_records'') d
      in case many (read_fault e)
                (map (\<lambda>r. (r, patient_ref (users d) (hr_patient_id r)))
                   (order_desc recorded_at rows)) of
           (records, Some err) \<Rightarrow> (Failure 500 ''Failed to fetch health records'', d1)
         | (records, None) \<Rightarrow> (Success records, d1))"

text \<open>\<open>POST /health-records\<close>.\<close>

definition health_records_POST ::
  "env \<Rightarrow> health_body \<Rightarrow> db \<Rightarrow> health_record option response \<times> db" where
  "health_records_POST e body d =
     (case health_records_insert_single e
             \<lparr>hr_id = fresh_id e,
              hr_patient_id = hb_patient_id body,
              heart_rate = hb_heart_rate body,
              blood_pressure = hb_blood_pressure body,
              temperature = hb_temperature body,
              weight = hb_weight body,
              height = hb_height body,
              recorded_at = now e\<rparr> d of
        ((record, Some err), d1) \<Rightarrow> (Failure 500 ''Failed to create health record'', d1)
      | ((record, None), d1) \<Rightarrow> (Success record, d1))"

record medical_body =
  mb_patient_id :: "string option"
  mb_doctor_id :: "string option"
  mb_record_type :: "string option"
  mb_title :: "string option"
  mb_description :: "string option"
  mb_file_name :: "string option"
  mb_file_size :: "nat option"
  mb_ipfs_hash :: "string option"

text \<open>\<open>GET /medical-records\<close>, each row with its patient and its doctor expanded.\<close>

definition medical_records_GET ::
  "env \<Rightarrow> string option \<Rightarrow> db \<Rightarrow>
   (medical_record \<times> (string option \<times> string option) option
      \<times> (string option \<times> string option) option) list option response \<times> db" where
  "medical_records_GET e patientId d =
     (let rows = (if truthy patientId
                  then filter (\<lambda>r. mr_patient_id r = patientId) (medical_records d)
                  else medical_records d);
          d1 = logged (SelectReq ''medical_records'') d
      in case many (read_fault e)
                (map (\<lambda>r. (r, patient_ref (users d) (mr_patient_id r),
                              doctor_ref (users d) (mr_doctor_id r)))
                   (order_desc mr_created_at rows)) of
           (records, Some err) \<Rightarrow> (Failure 500 ''Failed to fetch medical records'', d1)
         | (records, None) \<Rightarrow> (Success records, d1))"

text \<open>\<open>POST /medical-records\<close>.\<close>

definition medical_records_POST ::
  "env \<Rightarrow> medical_body \<Rightarrow> db \<Rightarrow> medical_record option response \<times> db" where
  "medical_records_POST e body d =
     (case medical_records_insert_single e
             \<lparr>mr_id = fresh_id e,
              mr_patient_id = mb_patient_id body,
              mr_doctor_id = mb_doctor_id body,
              record_type = mb_record_type body,
              title = mb_title body,
              description = mb_description body,
              file_name = mb_file_name body,
              file_size = mb_file_size body,
              ipfs_hash = mb_ipfs_hash body,
              mr_created_at = now e\<rparr> d of
        ((record, Some err), d1) \<Rightarrow> (Failure 500 ''Failed to create medical record'', d1)
      | ((record, None), d1) \<Rightarrow> (Success record, d1))"

text \<open>
  The multipart form of \<open>POST /anemia-detection\<close>. The uploaded file is represented
  by the base64 text of its bytes; a form without the file part has no image. The
  confidence is computed here over the rationals, where the code rounds the product
  and the sum to doubles, so the two may differ in the last binary place; no property
  below speaks of its value.
\<close>

record anemia_form =
  af_image :: "string option"
  af_analysis_type :: "string option"
  af_patient_id :: "string option"

record anemia_result =
  res_prediction :: string
  res_confidence :: rat
  res_roi_detected :: bool
  recommendations :: "string list"

definition anemia_detection_POST ::
  "env \<Rightarrow> anemia_form \<Rightarrow> db \<Rightarrow> (anemia_analysis option \<times> anemia_result) response \<times> db" where
  "anemia_detection_POST e formData d =
     (if af_image formData = None \<or> \<not> truthy (af_analysis_type formData)
           \<or> \<not> truthy (af_patient_id formData)
      then (Failure 400 ''Missing required fields'', d)
      else
        (let base64Image = the (af_image formData);
             mockPrediction = (if random_1 e > 1 / 2 then ''Anemic'' else ''Non-Anemic'');
             mockConfidence = random_2 e * 40 + 60
         in case anemia_analyses_insert_single e
                   \<lparr>aa_id = fresh_id e,
                    aa_patient_id = the (af_patient_id formData),
                    analysis_type = the (af_analysis_type formData),
                    prediction = mockPrediction,
                    confidence = mockConfidence,
                    roi_detected = True,
                    image_data = take 1000 base64Image,
                    aa_created_at = now e\<rparr> d of
              ((analysis, Some err), d1) \<Rightarrow> (Failure 500 ''Failed to analyze image'', d1)
            | ((analysis, None), d1) \<Rightarrow>
                (Success (analysis,
                   \<lparr>res_prediction = mockPrediction,
                    res_confidence = mockConfidence,
                    res_roi_detected = True,
                    recommendations =
                      (if mockPrediction = ''Anemic''
                       then [''Consult with a hematologist'',
                             ''Increase iron-rich foods in diet'',
                             ''Consider iron supplements'',
                             ''Regular blood tests recommended'']
                       else [''Continue healthy diet'', ''Regular health checkups'',
                             ''Monitor for any symptoms''])\<rparr>), d1)))"

text \<open>\<open>GET /anemia-detection\<close>, each row with its patient expanded.\<close>

definition anemia_detection_GET ::
  "env \<Rightarrow> string option \<Rightarrow> db \<Rightarrow>
   (anemia_analysis \<times> (string option \<times> string option) option) list option response \<times> db" where
  "anemia_detection_GET e patientId d =
     (let rows = (if truthy patientId
                  then filter (\<lambda>r. Some (aa_patient_id r) = patientId) (anemia_analyses d)
                  else anemia_analyses d);
          d1 = logged (SelectReq ''anemia_analyses'') d
      in case many (read_fault e)
                (map (\<lambda>r. (r, patient_ref (users d) (Some (aa_patient_id r))))
                   (order_desc aa_created_at rows)) of
           (analyses, Some err) \<Rightarrow> (Failure 500 ''Failed to fetch analyses'', d1)
         | (analyses, None) \<Rightarrow> (Success analyses, d1))"

section \<open>Dashboard aggregates\<close>

definition getLatestVitals :: "health_record list \<Rightarrow> health_record option" where
  "getLatestVitals healthRecords =
     (if length healthRecords = 0 then None else Some (healthRecords ! 0))"

text \<open>
  The test \<open>x && x >= lo && x <= hi\<close> on an optional number: an absent value and
  zero are both falsy.
\<close>

definition in_range :: "rat option \<Rightarrow> rat \<Rightarrow> rat \<Rightarrow> bool" where
  "in_range x lo hi = (case x of None \<Rightarrow> False | Some v \<Rightarrow> v \<noteq> 0 \<and> lo \<le> v \<and> v \<le> hi)"

definition calculateHealthScore :: "health_record list \<Rightarrow> anemia_analysis list \<Rightarrow> int" where
  "calculateHealthScore healthRecords anemiaAnalyses =
     (let score = 70 in
      case getLatestVitals healthRecords of
        None \<Rightarrow> min score 100
      | Some latestVitals \<Rightarrow>
          (let score = (if in_range (heart_rate latestVitals) 60 100 then score + 10 else score);
               score = (if in_range (temperature latestVitals) 36 (75 / 2) then score + 10 else score);
               score = (case find (\<lambda>a. prediction a = ''Non-Anemic'') anemiaAnalyses of
                          Some recentAnemia \<Rightarrow> score + 10
                        | None \<Rightarrow> score)
           in min score 100))"

section \<open>Sample requests and stores\<close>

definition env_ok :: env where
  "env_ok = \<lparr>now = 100, fresh_id = ''id-100'', read_fault = None, write_fault = None,
     random_1 = 1 / 4, random_2 = 1 / 2\<rparr>"

definition env_later :: env where
  "env_later = \<lparr>now = 200, fresh_id = ''id-200'', read_fault = None, write_fault = None,
     random_1 = 3 / 4, random_2 = 1 / 4\<rparr>"

definition env_down :: env where
  "env_down = \<lparr>now = 300, fresh_id = ''id-300'', read_fault = Some ''08006'',
     write_fault = Some ''08006'', random_1 = 1 / 4, random_2 = 1 / 2\<rparr>"

definition db_empty :: db where
  "db_empty = \<lparr>users = [], health_records = [], medical_records = [], anemia_analyses = [],
     gw_log = []\<rparr>"

definition alice_v1 :: user_body where
  "alice_v1 = \<lparr>ub_wallet_address = ''0xA11CE'', ub_name = Str ''Alice'',
     ub_email = Str ''alice@example.org'', ub_role = Str ''patient'',
     ub_specialization = Undefined, ub_license_number = Undefined, ub_hospital = Undefined\<rparr>"

definition alice_v2 :: user_body where
  "alice_v2 = \<lparr>ub_wallet_address = ''0xA11CE'', ub_name = Str ''Alice B'',
     ub_email = Str ''alice@example.org'', ub_role = Str ''patient'',
     ub_specialization = Undefined, ub_license_number = Undefined, ub_hospital = Undefined\<rparr>"

definition alice_no_role :: user_body where
  "alice_no_role = \<lparr>ub_wallet_address = ''0xA11CE'', ub_name = Str ''Alice B'',
     ub_email = Undefined, ub_role = Undefined,
     ub_specialization = Undefined, ub_license_number = Undefined, ub_hospital = Undefined\<rparr>"

definition dr_row :: user where
  "dr_row = \<lparr>uid = ''u-7'', wallet_address = ''0xD0C'', name = Some ''Dr Bob'',
     email = Some ''bob@example.org'', role = Some ''doctor'',
     specialization = Some ''cardiology'', license_number = Some ''L-1'',
     hospital = Some ''General'', is_verified = True, created_at = 10,
     last_login_at = None\<rparr>"

definition dr_body :: user_body where
  "dr_body = \<lparr>ub_wallet_address = ''0xD0C'', ub_name = Str ''Dr Bob'',
     ub_email = Str ''bob@example.org'', ub_role = Str ''doctor'',
     ub_specialization = Str ''cardiology'', ub_license_number = Str ''L-1'',
     ub_hospital = Str ''City''\<rparr>"

definition dr_as_patient :: user_body where
  "dr_as_patient = \<lparr>ub_wallet_address = ''0xD0C'', ub_name = Str ''Dr Bob'',
     ub_email = Str ''bob@example.org'', ub_role = Str ''patient'',
     ub_specialization = Undefined, ub_license_number = Undefined, ub_hospital = Undefined\<rparr>"

definition db_doctor :: db where
  "db_doctor = \<lparr>users = [dr_row], health_records = [], medical_records = [],
     anemia_analyses = [], gw_log = []\<rparr>"

definition clear_analysis :: anemia_analysis where
  "clear_analysis = \<lparr>aa_id = ''a-1'', aa_patient_id = ''u-1'', analysis_type = ''eye_anemia'',
     prediction = ''Non-Anemic'', confidence = 90, roi_detected = True, image_data = ''AAAA'',
     aa_created_at = 5\<rparr>"

definition vitals_body :: health_body where
  "vitals_body = \<lparr>hb_patient_id = Some ''u-1'', hb_heart_rate = Some 72,
     hb_blood_pressure = Some ''120/80'', hb_temperature = Some (73 / 2),
     hb_weight = None, hb_height = None\<rparr>"

definition untitled_body :: medical_body where
  "untitled_body = \<lparr>mb_patient_id = Some ''u-1'', mb_doctor_id = Some ''u-1'',
     mb_record_type = Some ''lab_results'', mb_title = None,
     mb_description = Some ''fasting'', mb_file_name = None, mb_file_size = None,
     mb_ipfs_hash = None\<rparr>"

definition untitled_row :: medical_record where
  "untitled_row = \<lparr>mr_id = ''id-100'', mr_patient_id = Some ''u-1'',
     mr_doctor_id = Some ''u-1'', record_type = Some ''lab_results'', title = None,
     description = Some ''fasting'', file_name = None, file_size = None,
     ipfs_hash = None, mr_created_at = 100\<rparr>"

definition form_no_type :: anemia_form where
  "form_no_type = \<lparr>af_image = Some ''aGVsbG8='', af_analysis_type = None,
     af_patient_id = Some ''u-1''\<rparr>"

definition form_full :: anemia_form where
  "form_full = \<lparr>af_image = Some ''aGVsbG8='', af_analysis_type = Some ''eye_anemia'',
     af_patient_id = Some ''u-1''\<rparr>"

text \<open>A store with three records of each kind, owned by two patients.\<close>

definition vitals_1 :: health_record where
  "vitals_1 = \<lparr>hr_id = ''h-1'', hr_patient_id = Some ''u-1'', heart_rate = Some 72,
     blood_pressure = None, temperature = None, weight = None, height = None,
     recorded_at = 10\<rparr>"

definition vitals_2 :: health_record where
  "vitals_2 = vitals_1\<lparr>hr_id := ''h-2'', hr_patient_id := Some ''u-2'', recorded_at := 30\<rparr>"

definition vitals_3 :: health_record where
  "vitals_3 = vitals_1\<lparr>hr_id := ''h-3'', recorded_at := 20\<rparr>"

definition chart_1 :: medical_record where
  "chart_1 = \<lparr>mr_id = ''m-1'', mr_patient_id = Some ''u-1'', mr_doctor_id = Some ''u-7'',
     record_type = Some ''imaging'', title = Some ''Chest X-ray'', description = None,
     file_name = None, file_size = None, ipfs_hash = None, mr_created_at = 11\<rparr>"

definition chart_2 :: medical_record where
  "chart_2 = chart_1\<lparr>mr_id := ''m-2'', mr_patient_id := Some ''u-2'', mr_created_at := 31\<rparr>"

definition chart_3 :: medical_record where
  "chart_3 = chart_1\<lparr>mr_id := ''m-3'', mr_created_at := 21\<rparr>"

definition screen_2 :: anemia_analysis where
  "screen_2 = clear_analysis\<lparr>aa_id := ''a-2'', aa_patient_id := ''u-2'',
     prediction := ''Anemic'', aa_created_at := 32\<rparr>"

definition screen_3 :: anemia_analysis where
  "screen_3 = clear_analysis\<lparr>aa_id := ''a-3'', aa_created_at := 22\<rparr>"

definition db_three :: db where
  "db_three = \<lparr>users = [dr_row], health_records = [vitals_1, vitals_2, vitals_3],
     medical_records = [chart_1, chart_2, chart_3],
     anemia_analyses = [clear_analysis, screen_2, screen_3], gw_log = []\<rparr>"

section \<open>Auxiliary facts\<close>

lemma find_case_list_ex:
  "(case find P xs of Some y \<Rightarrow> a | None \<Rightarrow> b) = (if list_ex P xs then a else b)"
  by (induction xs) auto

lemma score_Nil: "calculateHealthScore [] ans = 70"
  by (simp add: calculateHealthScore_def getLatestVitals_def)

lemma score_Cons:
  "calculateHealthScore (v # hrs) ans =
     min (70 + (if in_range (heart_rate v) 60 100 then 10 else 0)
             + (if in_range (temperature v) 36 (75 / 2) then 10 else 0)
             + (if list_ex (\<lambda>a. prediction a = ''Non-Anemic'') ans then 10 else 0)) 100"
  by (simp add: calculateHealthScore_def getLatestVitals_def Let_def find_case_list_ex)

lemma filter_patched:
  assumes "\<And>x. wallet_address (f x) = wallet_address x"
  shows "filter (\<lambda>u. wallet_address u = w) (map (\<lambda>x. if wallet_address x = w then f x else x) xs)
         = map f (filter (\<lambda>u. wallet_address u = w) xs)"
  by (induction xs) (simp_all add: assms)

lemma filter_others_patched:
  assumes "\<And>x. wallet_address (f x) = wallet_address x"
  shows "filter (\<lambda>u. wallet_address u \<noteq> w) (map (\<lambda>x. if wallet_address x = w then f x else x) xs)
         = filter (\<lambda>u. wallet_address u \<noteq> w) xs"
  by (induction xs) (simp_all add: assms)

lemma filter_singleton_mem: "filter P xs = [x] \<Longrightarrow> x \<in> set xs \<and> P x"
proof -
  assume h: "filter P xs = [x]"
  have "x \<in> set (filter P xs)" by (simp add: h)
  then show ?thesis by simp
qed

lemma at_most_one_cases:
  assumes "length xs \<le> 1"
  obtains "xs = []" | x where "xs = [x]"
  using assms by (cases xs) (auto simp: Suc_le_eq)

lemma profile_patch_wallet: "wallet_address (profile_patch e b u) = wallet_address u"
  by (simp add: profile_patch_def)

text \<open>The two branches of the upsert when the store serves both calls.\<close>

lemma users_POST_insert:
  assumes "read_fault e = None" and "write_fault e = None"
    and "filter (\<lambda>u. wallet_address u = ub_wallet_address b) (users d) = []"
  shows "users_POST e b d =
           (Success (Some (new_user e b), ''User created successfully''),
            d\<lparr>users := users d @ [new_user e b],
              gw_log := gw_log d @ [SelectReq ''users'', InsertReq ''users'']\<rparr>)"
  using assms
  by (simp add: users_POST_def users_select_single_def single_def users_insert_single_def
      logged_def)

lemma users_POST_update:
  assumes "read_fault e = None" and "write_fault e = None"
    and "filter (\<lambda>u. wallet_address u = ub_wallet_address b) (users d) = [u]"
  shows "users_POST e b d =
           (Success (Some (profile_patch e b u), ''User profile updated successfully''),
            d\<lparr>users := map (\<lambda>x. if wallet_address x = ub_wallet_address b
                                then profile_patch e b x else x) (users d),
              gw_log := gw_log d @ [SelectReq ''users'', UpdateReq ''users'']\<rparr>)"
  using assms
  by (simp add: users_POST_def users_select_single_def single_def users_update_single_def
      logged_def)

text \<open>Whatever the faults, a successful upsert went through one of the two branches.\<close>

lemma users_POST_success_cases:
  assumes ok: "fst (users_POST e b d) = Success (Some u, msg)"
  shows "(u = new_user e b \<and> users (snd (users_POST e b d)) = users d @ [new_user e b])
    \<or> (\<exists>x. filter (\<lambda>x. wallet_address x = ub_wallet_address b) (users d) = [x]
          \<and> u = profile_patch e b x
          \<and> users (snd (users_POST e b d))
             = map (\<lambda>x. if wallet_address x = ub_wallet_address b
                         then profile_patch e b x else x) (users d))"
  using ok
  by (auto simp: users_POST_def users_select_single_def single_def users_update_single_def
      users_insert_single_def logged_def Let_def
      split: option.splits list.splits if_splits)

lemma update_login_found:
  assumes "w \<noteq> []" and "write_fault e = None"
    and "filter (\<lambda>u. wallet_address u = w) (users d) = [u]"
  shows "update_login_POST e \<lparr>lb_wallet_address = Some w\<rparr> d =
           (Success (Some (u\<lparr>last_login_at := Some (now e)\<rparr>)),
            d\<lparr>users := map (\<lambda>x. if wallet_address x = w
                                then x\<lparr>last_login_at := Some (now e)\<rparr> else x) (users d),
              gw_log := gw_log d @ [UpdateReq ''users'']\<rparr>)"
  using assms
  by (simp add: update_login_POST_def users_update_single_def logged_def)

lemma update_login_missing:
  assumes "filter (\<lambda>u. wallet_address u = w) (users d) = []"
  shows "status (fst (update_login_POST e \<lparr>lb_wallet_address = Some w\<rparr> d)) \<in> {400, 500}
         \<and> users (snd (update_login_POST e \<lparr>lb_wallet_address = Some w\<rparr> d)) = users d"
  using assms
  by (cases "write_fault e")
     (simp_all add: update_login_POST_def users_update_single_def logged_def)

lemma mset_order_desc: "mset (order_desc k xs) = mset xs"
  by (simp add: order_desc_def)

lemma sorted_order_desc: "sorted (rev (map k (order_desc k xs)))"
  by (simp add: order_desc_def rev_map [symmetric])

lemma fst_expanded: "map fst (map (\<lambda>r. (r, g r)) xs) = xs"
  by (induction xs) simp_all

lemma key_expanded: "map (\<lambda>x. k (fst x)) (map (\<lambda>r. (r, g r)) xs) = map k xs"
  by (induction xs) simp_all

lemma health_records_GET_all:
  assumes "\<not> truthy patientId" and "read_fault e = None"
  shows "fst (health_records_GET e patientId d) =
           Success (Some (map (\<lambda>r. (r, patient_ref (users d) (hr_patient_id r)))
                            (order_desc recorded_at (health_records d))))"
  using assms by (simp add: health_records_GET_def many_def Let_def)

lemma medical_records_GET_all:
  assumes "\<not> truthy patientId" and "read_fault e = None"
  shows "fst (medical_records_GET e patientId d) =
           Success (Some (map (\<lambda>r. (r, patient_ref (users d) (mr_patient_id r),
                                       doctor_ref (users d) (mr_doctor_id r)))
                            (order_desc mr_created_at (medical_records d))))"
  using assms by (simp add: medical_records_GET_def many_def Let_def)

lemma anemia_detection_GET_all:
  assumes "\<not> truthy patientId" and "read_fault e = None"
  shows "fst (anemia_detection_GET e patientId d) =
           Success (Some (map (\<lambda>r. (r, patient_ref (users d) (Some (aa_patient_id r))))
                            (order_desc aa_created_at (anemia_analyses d))))"
  using assms by (simp add: anemia_detection_GET_def many_def Let_def)

section \<open>Dashboard aggregates: latest vitals and health score\<close>

text \<open>
  C6. \<open>getLatestVitals\<close> of the empty list is absent, and of a non-empty list it is
  the first element, whatever the elements hold: the list is not sorted again.
\<close>

theorem getLatestVitals_first:
  "getLatestVitals [] = None \<and> getLatestVitals (r # rs) = Some r"
  by (simp add: getLatestVitals_def)

text \<open>
  C5. The score always lies between 70 and 100, and adding analyses anywhere in the
  list of analyses (in particular analyses predicted Non-Anemic), with the health
  records held fixed, never lowers it.
\<close>

theorem score_bounds_mono:
  "70 \<le> calculateHealthScore hrs ans \<and> calculateHealthScore hrs ans \<le> 100
   \<and> calculateHealthScore hrs (xs @ ys) \<le> calculateHealthScore hrs (xs @ extra @ ys)"
proof (cases hrs)
  case Nil
  then show ?thesis by (simp add: score_Nil)
next
  case (Cons v rest)
  then show ?thesis by (simp add: score_Cons)
qed

text \<open>
  C2, as stated, fails: the anemia bonus sits inside the branch taken only when a
  latest health record exists, so with no health record and one Non-Anemic analysis
  the score is 70, not 80.
\<close>

theorem score_no_vitals_counterexample:
  "prediction clear_analysis = ''Non-Anemic'' \<and> calculateHealthScore [] [clear_analysis] = 70"
  by (simp add: score_Nil clear_analysis_def)

text \<open>
  C2, amended. The score starts from 70. With no health record it is 70 whatever the
  analyses are; with a latest health record, an analysis predicted Non-Anemic adds
  exactly 10 to the score obtained without analyses.
\<close>

theorem score_anemia_bonus:
  "calculateHealthScore [] ans = 70
   \<and> calculateHealthScore (v # hrs) ans =
       calculateHealthScore (v # hrs) []
         + (if list_ex (\<lambda>a. prediction a = ''Non-Anemic'') ans then 10 else 0)"
  by (simp add: score_Nil score_Cons)

section \<open>Properties of the user service\<close>

text \<open>
  C4, as stated, fails in its last clause: the update branch writes more than the
  profile fields and the last-login time. It also writes the verification flag, as
  (role of the body = patient). A patient created verified, whose second upsert gives a
  new name and no role, keeps the role patient and loses the flag.
\<close>

theorem upsert_rewrites_verified_counterexample:
  "ub_wallet_address alice_no_role = ub_wallet_address alice_v1
   \<and> ub_name alice_no_role \<noteq> ub_name alice_v1
   \<and> map role (users (snd (users_POST env_ok alice_v1 db_empty))) = [Some ''patient'']
   \<and> map is_verified (users (snd (users_POST env_ok alice_v1 db_empty))) = [True]
   \<and> map role (users (snd (users_POST env_later alice_no_role
                               (snd (users_POST env_ok alice_v1 db_empty)))))
       = [Some ''patient'']
   \<and> map is_verified (users (snd (users_POST env_later alice_no_role
                                      (snd (users_POST env_ok alice_v1 db_empty)))))
       = [False]"
  by (simp add: users_POST_def users_select_single_def single_def users_insert_single_def
      users_update_single_def logged_def new_user_def profile_patch_def
      alice_v1_def alice_no_role_def env_ok_def env_later_def db_empty_def)

text \<open>
  C4, amended. Two upserts for the same wallet address, served by a store that holds
  at most one row for that address, leave exactly one row for it. Its name is the
  second call's; its wallet address, creation time and identifier are those it had
  after the first call; the rows of all other addresses are untouched. The second call
  goes through the update branch, and the row it leaves is the row of the first call
  with these columns written and no other: the six profile columns (each one only when
  the body holds it), the verification flag, set to (role of the body = patient), and
  the last-login time, set to the instant of the call.
\<close>

theorem upsert_twice_one_row:
  assumes once: "length (filter (\<lambda>u. wallet_address u = ub_wallet_address b1) (users d)) \<le> 1"
    and same: "ub_wallet_address b2 = ub_wallet_address b1"
    and nm: "ub_name b2 = Str n2"
    and ok1: "read_fault e1 = None" "write_fault e1 = None"
    and ok2: "read_fault e2 = None" "write_fault e2 = None"
  shows "\<exists>u1 u2.
           filter (\<lambda>u. wallet_address u = ub_wallet_address b1)
             (users (snd (users_POST e1 b1 d))) = [u1]
         \<and> filter (\<lambda>u. wallet_address u = ub_wallet_address b1)
             (users (snd (users_POST e2 b2 (snd (users_POST e1 b1 d))))) = [u2]
         \<and> name u2 = Some n2
         \<and> wallet_address u2 = wallet_address u1
         \<and> created_at u2 = created_at u1
         \<and> uid u2 = uid u1
         \<and> u2 = u1\<lparr>name := Some n2,
                   email := patch_column (ub_email b2) (email u1),
                   role := patch_column (ub_role b2) (role u1),
                   specialization := patch_column (ub_specialization b2) (specialization u1),
                   license_number := patch_column (ub_license_number b2) (license_number u1),
                   hospital := patch_column (ub_hospital b2) (hospital u1),
                   is_verified := (ub_role b2 = Str ''patient''),
                   last_login_at := Some (now e2)\<rparr>
         \<and> fst (users_POST e2 b2 (snd (users_POST e1 b1 d)))
             = Success (Some u2, ''User profile updated successfully'')
         \<and> filter (\<lambda>u. wallet_address u \<noteq> ub_wallet_address b1)
             (users (snd (users_POST e2 b2 (snd (users_POST e1 b1 d)))))
           = filter (\<lambda>u. wallet_address u \<noteq> ub_wallet_address b1) (users d)"
proof -
  let ?w = "ub_wallet_address b1"
  let ?d1 = "snd (users_POST e1 b1 d)"
  have first: "\<exists>u1. filter (\<lambda>u. wallet_address u = ?w) (users ?d1) = [u1]
      \<and> filter (\<lambda>u. wallet_address u \<noteq> ?w) (users ?d1)
          = filter (\<lambda>u. wallet_address u \<noteq> ?w) (users d)"
  proof (rule at_most_one_cases [OF once])
    assume none: "filter (\<lambda>u. wallet_address u = ?w) (users d) = []"
    show ?thesis
      by (simp add: users_POST_insert [OF ok1 none] none new_user_def)
  next
    fix u0 assume one: "filter (\<lambda>u. wallet_address u = ?w) (users d) = [u0]"
    show ?thesis
      by (simp add: users_POST_update [OF ok1 one] one filter_patched filter_others_patched
          profile_patch_wallet)
  qed
  then obtain u1 where u1: "filter (\<lambda>u. wallet_address u = ?w) (users ?d1) = [u1]"
    and rest1: "filter (\<lambda>u. wallet_address u \<noteq> ?w) (users ?d1)
          = filter (\<lambda>u. wallet_address u \<noteq> ?w) (users d)"
    by blast
  from u1 have u1': "filter (\<lambda>u. wallet_address u = ub_wallet_address b2) (users ?d1) = [u1]"
    by (simp add: same)
  have second: "users_POST e2 b2 ?d1 =
      (Success (Some (profile_patch e2 b2 u1), ''User profile updated successfully''),
       ?d1\<lparr>users := map (\<lambda>x. if wallet_address x = ub_wallet_address b2
                                then profile_patch e2 b2 x else x) (users ?d1),
           gw_log := gw_log ?d1 @ [SelectReq ''users'', UpdateReq ''users'']\<rparr>)"
    by (rule users_POST_update [OF ok2 u1'])
  let ?u2 = "profile_patch e2 b2 u1"
  have "filter (\<lambda>u. wallet_address u = ?w) (users (snd (users_POST e2 b2 ?d1))) = [?u2]"
    by (simp add: second same filter_patched profile_patch_wallet u1)
  moreover have "filter (\<lambda>u. wallet_address u \<noteq> ?w) (users (snd (users_POST e2 b2 ?d1)))
      = filter (\<lambda>u. wallet_address u \<noteq> ?w) (users d)"
    by (simp add: second same filter_others_patched profile_patch_wallet rest1)
  moreover have "name ?u2 = Some n2" "wallet_address ?u2 = wallet_address u1"
    "created_at ?u2 = created_at u1" "uid ?u2 = uid u1"
    by (simp_all add: profile_patch_def nm)
  moreover have "?u2 = u1\<lparr>name := Some n2,
                   email := patch_column (ub_email b2) (email u1),
                   role := patch_column (ub_role b2) (role u1),
                   specialization := patch_column (ub_specialization b2) (specialization u1),
                   license_number := patch_column (ub_license_number b2) (license_number u1),
                   hospital := patch_column (ub_hospital b2) (hospital u1),
                   is_verified := (ub_role b2 = Str ''patient''),
                   last_login_at := Some (now e2)\<rparr>"
    by (simp add: profile_patch_def nm)
  moreover have "fst (users_POST e2 b2 ?d1) = Success (Some ?u2, ''User profile updated successfully'')"
    by (simp add: second)
  ultimately show ?thesis using u1 by blast
qed


text \<open>The two upserts on an empty store, the second with another name.\<close>

theorem upsert_twice_one_row_witness:
  "length (filter (\<lambda>u. wallet_address u = ub_wallet_address alice_v1) (users db_empty)) \<le> 1
   \<and> ub_wallet_address alice_v2 = ub_wallet_address alice_v1
   \<and> ub_name alice_v2 = Str ''Alice B''
   \<and> ub_name alice_v1 \<noteq> ub_name alice_v2
   \<and> (\<exists>u1 u2.
           filter (\<lambda>u. wallet_address u = ub_wallet_address alice_v1)
             (users (snd (users_POST env_ok alice_v1 db_empty))) = [u1]
         \<and> filter (\<lambda>u. wallet_address u = ub_wallet_address alice_v1)
             (users (snd (users_POST env_later alice_v2 (snd (users_POST env_ok alice_v1 db_empty))))) = [u2]
         \<and> name u2 = Some ''Alice B''
         \<and> wallet_address u2 = wallet_address u1
         \<and> created_at u2 = created_at u1
         \<and> uid u2 = uid u1
         \<and> u2 = u1\<lparr>name := Some ''Alice B'',
                   email := patch_column (ub_email alice_v2) (email u1),
                   role := patch_column (ub_role alice_v2) (role u1),
                   specialization := patch_column (ub_specialization alice_v2) (specialization u1),
                   license_number := patch_column (ub_license_number alice_v2) (license_number u1),
                   hospital := patch_column (ub_hospital alice_v2) (hospital u1),
                   is_verified := (ub_role alice_v2 = Str ''patient''),
                   last_login_at := Some (now env_later)\<rparr>
         \<and> fst (users_POST env_later alice_v2 (snd (users_POST env_ok alice_v1 db_empty)))
             = Success (Some u2, ''User profile updated successfully'')
         \<and> filter (\<lambda>u. wallet_address u \<noteq> ub_wallet_address alice_v1)
             (users (snd (users_POST env_later alice_v2 (snd (users_POST env_ok alice_v1 db_empty)))))
           = filter (\<lambda>u. wallet_address u \<noteq> ub_wallet_address alice_v1) (users db_empty))"
proof -
  have h1: "length (filter (\<lambda>u. wallet_address u = ub_wallet_address alice_v1) (users db_empty)) \<le> 1"
    by (simp add: db_empty_def)
  have h2: "ub_wallet_address alice_v2 = ub_wallet_address alice_v1"
    by (simp add: alice_v1_def alice_v2_def)
  have h3: "ub_name alice_v2 = Str ''Alice B''"
    by (simp add: alice_v2_def)
  have h4: "ub_name alice_v1 \<noteq> ub_name alice_v2"
    by (simp add: alice_v1_def alice_v2_def)
  have e1: "read_fault env_ok = None" "write_fault env_ok = None"
    by (simp_all add: env_ok_def)
  have e2: "read_fault env_later = None" "write_fault env_later = None"
    by (simp_all add: env_later_def)
  show ?thesis
    by (intro conjI h1 h2 h3 h4 upsert_twice_one_row [OF h1 h2 h3 e1 e2])
qed

text \<open>
  C8. \<open>touchLogin\<close> for an address held by exactly one row answers with that row,
  changed in its last-login time only (set to the instant of the call), and changes
  no other row; for an address that no row holds it answers with an error status and
  leaves the users as they were.
\<close>

theorem touch_login_frame:
  "(w \<noteq> [] \<and> write_fault e = None \<and> filter (\<lambda>u. wallet_address u = w) (users d) = [u] \<longrightarrow>
      fst (update_login_POST e \<lparr>lb_wallet_address = Some w\<rparr> d)
        = Success (Some (u\<lparr>last_login_at := Some (now e)\<rparr>))
    \<and> filter (\<lambda>x. wallet_address x = w)
        (users (snd (update_login_POST e \<lparr>lb_wallet_address = Some w\<rparr> d)))
        = [u\<lparr>last_login_at := Some (now e)\<rparr>]
    \<and> filter (\<lambda>x. wallet_address x \<noteq> w)
        (users (snd (update_login_POST e \<lparr>lb_wallet_address = Some w\<rparr> d)))
        = filter (\<lambda>x. wallet_address x \<noteq> w) (users d)
    \<and> length (users (snd (update_login_POST e \<lparr>lb_wallet_address = Some w\<rparr> d)))
        = length (users d))
   \<and> (filter (\<lambda>u. wallet_address u = w) (users d) = [] \<longrightarrow>
      status (fst (update_login_POST e \<lparr>lb_wallet_address = Some w\<rparr> d)) \<in> {400, 500}
    \<and> users (snd (update_login_POST e \<lparr>lb_wallet_address = Some w\<rparr> d)) = users d)"
proof (intro conjI impI)
  assume h: "w \<noteq> [] \<and> write_fault e = None \<and> filter (\<lambda>u. wallet_address u = w) (users d) = [u]"
  then have eq: "update_login_POST e \<lparr>lb_wallet_address = Some w\<rparr> d =
           (Success (Some (u\<lparr>last_login_at := Some (now e)\<rparr>)),
            d\<lparr>users := map (\<lambda>x. if wallet_address x = w
                                then x\<lparr>last_login_at := Some (now e)\<rparr> else x) (users d),
              gw_log := gw_log d @ [UpdateReq ''users'']\<rparr>)"
    by (simp add: update_login_found)
  show "fst (update_login_POST e \<lparr>lb_wallet_address = Some w\<rparr> d)
        = Success (Some (u\<lparr>last_login_at := Some (now e)\<rparr>))"
    by (simp add: eq)
  show "filter (\<lambda>x. wallet_address x = w)
        (users (snd (update_login_POST e \<lparr>lb_wallet_address = Some w\<rparr> d)))
        = [u\<lparr>last_login_at := Some (now e)\<rparr>]"
    using h by (simp add: eq filter_patched)
  show "filter (\<lambda>x. wallet_address x \<noteq> w)
        (users (snd (update_login_POST e \<lparr>lb_wallet_address = Some w\<rparr> d)))
        = filter (\<lambda>x. wallet_address x \<noteq> w) (users d)"
    by (simp add: eq filter_others_patched)
  show "length (users (snd (update_login_POST e \<lparr>lb_wallet_address = Some w\<rparr> d)))
        = length (users d)"
    by (simp add: eq)
next
  assume h: "filter (\<lambda>u. wallet_address u = w) (users d) = []"
  show "status (fst (update_login_POST e \<lparr>lb_wallet_address = Some w\<rparr> d)) \<in> {400, 500}"
    using update_login_missing [OF h] by blast
  show "users (snd (update_login_POST e \<lparr>lb_wallet_address = Some w\<rparr> d)) = users d"
    using update_login_missing [OF h] by blast
qed


text \<open>A login for the one stored address, and one for an address that is not stored.\<close>

theorem touch_login_frame_witness:
  "filter (\<lambda>u. wallet_address u = ''0xD0C'') (users db_doctor) = [dr_row]
   \<and> fst (update_login_POST env_ok \<lparr>lb_wallet_address = Some ''0xD0C''\<rparr> db_doctor)
       = Success (Some (dr_row\<lparr>last_login_at := Some 100\<rparr>))
   \<and> filter (\<lambda>x. wallet_address x = ''0xD0C'')
       (users (snd (update_login_POST env_ok \<lparr>lb_wallet_address = Some ''0xD0C''\<rparr> db_doctor)))
       = [dr_row\<lparr>last_login_at := Some 100\<rparr>]
   \<and> filter (\<lambda>u. wallet_address u = ''0xA11CE'') (users db_doctor) = []
   \<and> status (fst (update_login_POST env_ok \<lparr>lb_wallet_address = Some ''0xA11CE''\<rparr> db_doctor))
       \<in> {400, 500}
   \<and> users (snd (update_login_POST env_ok \<lparr>lb_wallet_address = Some ''0xA11CE''\<rparr> db_doctor))
       = users db_doctor"
proof -
  have found: "filter (\<lambda>u. wallet_address u = ''0xD0C'') (users db_doctor) = [dr_row]"
    by (simp add: db_doctor_def dr_row_def)
  have missing: "filter (\<lambda>u. wallet_address u = ''0xA11CE'') (users db_doctor) = []"
    by (simp add: db_doctor_def dr_row_def)
  have served: "write_fault env_ok = None" and at: "now env_ok = 100"
    by (simp_all add: env_ok_def)
  have only: "users db_doctor = [dr_row]" "wallet_address dr_row = ''0xD0C''"
    by (simp_all add: db_doctor_def dr_row_def)
  show ?thesis
    using touch_login_frame [of "''0xD0C''" env_ok db_doctor dr_row]
      touch_login_frame [of "''0xA11CE''" env_ok db_doctor dr_row]
    by (simp add: found missing served at only)
qed

text \<open>
  C9. In both single-row lookups the store's row-not-found sentinel \<open>PGRST116\<close>
  gives a success response with an absent user, and that is what a lookup of an
  address without a row gets; a store failure with any other code gives the generic
  error response with status 500.
\<close>

theorem not_found_is_success:
  "(snd (fst (users_select_single e w d)) = Some (PgError ''PGRST116'') \<longrightarrow>
      fst (user_by_wallet_GET e w d) = Success None
    \<and> (w \<noteq> [] \<longrightarrow> fst (users_GET e (Some w) d) = Success (OneUser None)))
   \<and> (read_fault e = None \<and> filter (\<lambda>u. wallet_address u = w) (users d) = [] \<longrightarrow>
      snd (fst (users_select_single e w d)) = Some (PgError ''PGRST116''))
   \<and> (snd (fst (users_select_single e w d)) = Some (PgError c) \<and> c \<noteq> ''PGRST116'' \<longrightarrow>
      fst (user_by_wallet_GET e w d) = Failure 500 ''Failed to fetch user''
    \<and> (w \<noteq> [] \<longrightarrow> fst (users_GET e (Some w) d) = Failure 500 ''Failed to fetch users''))"
  by (auto simp: user_by_wallet_GET_def users_GET_def users_select_single_def single_def
      split: option.splits list.splits)


text \<open>A lookup of an address without a row, served and with the store down.\<close>

theorem not_found_is_success_witness:
  "read_fault env_ok = None
   \<and> filter (\<lambda>u. wallet_address u = ''0xA11CE'') (users db_doctor) = []
   \<and> snd (fst (users_select_single env_ok ''0xA11CE'' db_doctor)) = Some (PgError ''PGRST116'')
   \<and> fst (user_by_wallet_GET env_ok ''0xA11CE'' db_doctor) = Success None
   \<and> fst (users_GET env_ok (Some ''0xA11CE'') db_doctor) = Success (OneUser None)
   \<and> snd (fst (users_select_single env_down ''0xA11CE'' db_doctor)) = Some (PgError ''08006'')
   \<and> fst (user_by_wallet_GET env_down ''0xA11CE'' db_doctor) = Failure 500 ''Failed to fetch user''
   \<and> fst (users_GET env_down (Some ''0xA11CE'') db_doctor) = Failure 500 ''Failed to fetch users''"
proof -
  have served: "read_fault env_ok = None"
    by (simp add: env_ok_def)
  have missing: "filter (\<lambda>u. wallet_address u = ''0xA11CE'') (users db_doctor) = []"
    by (simp add: db_doctor_def dr_row_def)
  have down: "snd (fst (users_select_single env_down ''0xA11CE'' db_doctor)) = Some (PgError ''08006'')"
    by (simp add: users_select_single_def single_def env_down_def)
  show ?thesis
    using not_found_is_success [of env_ok "''0xA11CE''" db_doctor "''08006''"]
      not_found_is_success [of env_down "''0xA11CE''" db_doctor "''08006''"]
    by (simp add: served missing down)
qed

text \<open>
  C10, as stated, fails for an upsert that names the role patient: the flag is written
  as (role of the body = patient), so the verified doctor's row stays verified.
\<close>

theorem verified_doctor_as_patient_counterexample:
  "users db_doctor = [dr_row] \<and> role dr_row = Some ''doctor'' \<and> is_verified dr_row
   \<and> ub_wallet_address dr_as_patient = wallet_address dr_row
   \<and> status (fst (users_POST env_ok dr_as_patient db_doctor)) = 200
   \<and> map is_verified (users (snd (users_POST env_ok dr_as_patient db_doctor))) = [True]"
  by (simp add: users_POST_def users_select_single_def single_def users_update_single_def
      logged_def profile_patch_def dr_as_patient_def dr_row_def db_doctor_def env_ok_def)

text \<open>
  C10, amended. A successful upsert, through either branch, stores and returns a row
  whose verification flag is (role of the body = patient). Hence an upsert for the
  address of a verified doctor leaves that row unverified when the role it names is
  not patient (another role, or none), and verified when the role it names is patient.
\<close>

theorem upsert_sets_verified:
  "(fst (users_POST e b d) = Success (Some u, msg) \<longrightarrow>
      is_verified u = (ub_role b = Str ''patient'')
    \<and> u \<in> set (users (snd (users_POST e b d)))
    \<and> wallet_address u = ub_wallet_address b)
   \<and> (read_fault e = None \<and> write_fault e = None
      \<and> filter (\<lambda>x. wallet_address x = ub_wallet_address b) (users d) = [doc]
      \<and> role doc = Some ''doctor'' \<and> is_verified doc \<longrightarrow>
      (\<exists>doc'. fst (users_POST e b d) = Success (Some doc', ''User profile updated successfully'')
         \<and> filter (\<lambda>x. wallet_address x = ub_wallet_address b)
              (users (snd (users_POST e b d))) = [doc']
         \<and> is_verified doc' = (ub_role b = Str ''patient'')))"
proof (intro conjI impI)
  assume ok: "fst (users_POST e b d) = Success (Some u, msg)"
  note cases = users_POST_success_cases [OF ok]
  from cases show "is_verified u = (ub_role b = Str ''patient'')"
    by (auto simp: new_user_def profile_patch_def)
  from cases show "u \<in> set (users (snd (users_POST e b d)))"
  proof
    assume "u = new_user e b \<and> users (snd (users_POST e b d)) = users d @ [new_user e b]"
    then show ?thesis by simp
  next
    assume "\<exists>x. filter (\<lambda>x. wallet_address x = ub_wallet_address b) (users d) = [x]
          \<and> u = profile_patch e b x
          \<and> users (snd (users_POST e b d))
             = map (\<lambda>x. if wallet_address x = ub_wallet_address b
                         then profile_patch e b x else x) (users d)"
    then obtain x where x: "filter (\<lambda>x. wallet_address x = ub_wallet_address b) (users d) = [x]"
      and u: "u = profile_patch e b x"
      and us: "users (snd (users_POST e b d))
             = map (\<lambda>x. if wallet_address x = ub_wallet_address b
                         then profile_patch e b x else x) (users d)"
      by blast
    from filter_singleton_mem [OF x] have "x \<in> set (users d)" "wallet_address x = ub_wallet_address b"
      by simp_all
    then have "profile_patch e b x \<in> set (users (snd (users_POST e b d)))"
      unfolding us by (auto simp: image_iff intro!: bexI [of _ x])
    then show ?thesis using u by simp
  qed
  from cases show "wallet_address u = ub_wallet_address b"
    by (auto simp: new_user_def profile_patch_wallet dest: filter_singleton_mem)
next
  assume h: "read_fault e = None \<and> write_fault e = None
      \<and> filter (\<lambda>x. wallet_address x = ub_wallet_address b) (users d) = [doc]
      \<and> role doc = Some ''doctor'' \<and> is_verified doc"
  then have eq: "users_POST e b d =
           (Success (Some (profile_patch e b doc), ''User profile updated successfully''),
            d\<lparr>users := map (\<lambda>x. if wallet_address x = ub_wallet_address b
                                then profile_patch e b x else x) (users d),
              gw_log := gw_log d @ [SelectReq ''users'', UpdateReq ''users'']\<rparr>)"
    by (simp add: users_POST_update)
  have "is_verified (profile_patch e b doc) = (ub_role b = Str ''patient'')"
    by (simp add: profile_patch_def)
  moreover have "filter (\<lambda>x. wallet_address x = ub_wallet_address b)
              (users (snd (users_POST e b d))) = [profile_patch e b doc]"
    using h by (simp add: eq filter_patched profile_patch_wallet)
  ultimately show "\<exists>doc'. fst (users_POST e b d) = Success (Some doc', ''User profile updated successfully'')
         \<and> filter (\<lambda>x. wallet_address x = ub_wallet_address b)
              (users (snd (users_POST e b d))) = [doc']
         \<and> is_verified doc' = (ub_role b = Str ''patient'')"
    by (simp add: eq)
qed


text \<open>A verified doctor submits the profile again, as a doctor and as a patient.\<close>

theorem upsert_sets_verified_witness:
  "fst (users_POST env_ok dr_body db_doctor)
     = Success (Some (profile_patch env_ok dr_body dr_row), ''User profile updated successfully'')
   \<and> is_verified dr_row \<and> role dr_row = Some ''doctor''
   \<and> ub_role dr_body \<noteq> Str ''patient'' \<and> ub_role dr_as_patient = Str ''patient''
   \<and> \<not> is_verified (profile_patch env_ok dr_body dr_row)
   \<and> profile_patch env_ok dr_body dr_row \<in> set (users (snd (users_POST env_ok dr_body db_doctor)))
   \<and> (\<exists>doc'. filter (\<lambda>x. wallet_address x = ub_wallet_address dr_body)
              (users (snd (users_POST env_ok dr_body db_doctor))) = [doc']
         \<and> \<not> is_verified doc')
   \<and> (\<exists>doc'. filter (\<lambda>x. wallet_address x = ub_wallet_address dr_as_patient)
              (users (snd (users_POST env_ok dr_as_patient db_doctor))) = [doc']
         \<and> is_verified doc')"
proof -
  have served: "read_fault env_ok = None" "write_fault env_ok = None"
    by (simp_all add: env_ok_def)
  have found: "filter (\<lambda>x. wallet_address x = ub_wallet_address dr_body) (users db_doctor) = [dr_row]"
    by (simp add: db_doctor_def dr_row_def dr_body_def)
  have found': "filter (\<lambda>x. wallet_address x = ub_wallet_address dr_as_patient) (users db_doctor)
      = [dr_row]"
    by (simp add: db_doctor_def dr_row_def dr_as_patient_def)
  have ok: "fst (users_POST env_ok dr_body db_doctor)
     = Success (Some (profile_patch env_ok dr_body dr_row), ''User profile updated successfully'')"
    by (simp add: users_POST_update [OF served found])
  have doc: "is_verified dr_row" "role dr_row = Some ''doctor''"
    "ub_role dr_body \<noteq> Str ''patient''" "ub_role dr_as_patient = Str ''patient''"
    by (simp_all add: dr_row_def dr_body_def dr_as_patient_def)
  note doctor = upsert_sets_verified [of env_ok dr_body db_doctor
      "profile_patch env_ok dr_body dr_row" "''User profile updated successfully''" dr_row]
  note patient = upsert_sets_verified [of env_ok dr_as_patient db_doctor
      "profile_patch env_ok dr_body dr_row" "''User profile updated successfully''" dr_row]
  from doctor [THEN conjunct1] ok
  have stored: "is_verified (profile_patch env_ok dr_body dr_row) = (ub_role dr_body = Str ''patient'')
      \<and> profile_patch env_ok dr_body dr_row \<in> set (users (snd (users_POST env_ok dr_body db_doctor)))
      \<and> wallet_address (profile_patch env_ok dr_body dr_row) = ub_wallet_address dr_body"
    by (rule mp)
  have "\<exists>doc'. fst (users_POST env_ok dr_body db_doctor)
            = Success (Some doc', ''User profile updated successfully'')
         \<and> filter (\<lambda>x. wallet_address x = ub_wallet_address dr_body)
              (users (snd (users_POST env_ok dr_body db_doctor))) = [doc']
         \<and> is_verified doc' = (ub_role dr_body = Str ''patient'')"
    by (rule doctor [THEN conjunct2, THEN mp]) (intro conjI served found doc)
  then have reset: "\<exists>doc'. filter (\<lambda>x. wallet_address x = ub_wallet_address dr_body)
              (users (snd (users_POST env_ok dr_body db_doctor))) = [doc']
         \<and> \<not> is_verified doc'"
    using doc(3) by auto
  have "\<exists>doc'. fst (users_POST env_ok dr_as_patient db_doctor)
            = Success (Some doc', ''User profile updated successfully'')
         \<and> filter (\<lambda>x. wallet_address x = ub_wallet_address dr_as_patient)
              (users (snd (users_POST env_ok dr_as_patient db_doctor))) = [doc']
         \<and> is_verified doc' = (ub_role dr_as_patient = Str ''patient'')"
    by (rule patient [THEN conjunct2, THEN mp]) (intro conjI served found' doc)
  then have kept: "\<exists>doc'. filter (\<lambda>x. wallet_address x = ub_wallet_address dr_as_patient)
              (users (snd (users_POST env_ok dr_as_patient db_doctor))) = [doc']
         \<and> is_verified doc'"
    using doc(4) by auto
  from stored doc(3) have unverified: "\<not> is_verified (profile_patch env_ok dr_body dr_row)"
    by simp
  show ?thesis
    by (intro conjI ok doc unverified stored [THEN conjunct2, THEN conjunct1] reset kept)
qed

section \<open>Properties of the record services\<close>

text \<open>
  C7. A listing of health records, medical records or anemia analyses with no
  \<open>patient_id\<close> filter (absent or empty) answers, when the store serves it, with
  every stored record of that kind, each exactly once, newest first.
\<close>

theorem list_without_filter:
  "\<not> truthy patientId \<and> read_fault e = None \<longrightarrow>
     (\<exists>rs. fst (health_records_GET e patientId d) = Success (Some rs)
        \<and> mset (map fst rs) = mset (health_records d)
        \<and> sorted (rev (map (\<lambda>x. recorded_at (fst x)) rs)))
   \<and> (\<exists>rs. fst (medical_records_GET e patientId d) = Success (Some rs)
        \<and> mset (map fst rs) = mset (medical_records d)
        \<and> sorted (rev (map (\<lambda>x. mr_created_at (fst x)) rs)))
   \<and> (\<exists>rs. fst (anemia_detection_GET e patientId d) = Success (Some rs)
        \<and> mset (map fst rs) = mset (anemia_analyses d)
        \<and> sorted (rev (map (\<lambda>x. aa_created_at (fst x)) rs)))"
proof (intro impI conjI)
  assume h: "\<not> truthy patientId \<and> read_fault e = None"
  then have nofilter: "\<not> truthy patientId" and served: "read_fault e = None"
    by simp_all
  show "\<exists>rs. fst (health_records_GET e patientId d) = Success (Some rs)
        \<and> mset (map fst rs) = mset (health_records d)
        \<and> sorted (rev (map (\<lambda>x. recorded_at (fst x)) rs))"
  proof -
    let ?rs = "map (\<lambda>r. (r, patient_ref (users d) (hr_patient_id r))) (order_desc recorded_at (health_records d))"
    have a: "fst (health_records_GET e patientId d) = Success (Some ?rs)"
      by (rule health_records_GET_all [OF nofilter served])
    have b: "mset (map fst ?rs) = mset (health_records d)"
      by (simp only: fst_expanded mset_order_desc)
    have c: "sorted (rev (map (\<lambda>x. recorded_at (fst x)) ?rs))"
      by (simp only: key_expanded [of recorded_at] sorted_order_desc)
    show ?thesis
      by (intro exI [of _ ?rs] conjI) (fact a, fact b, fact c)
  qed
  show "\<exists>rs. fst (medical_records_GET e patientId d) = Success (Some rs)
        \<and> mset (map fst rs) = mset (medical_records d)
        \<and> sorted (rev (map (\<lambda>x. mr_created_at (fst x)) rs))"
  proof -
    let ?rs = "map (\<lambda>r. (r, patient_ref (users d) (mr_patient_id r),
                                       doctor_ref (users d) (mr_doctor_id r))) (order_desc mr_created_at (medical_records d))"
    have a: "fst (medical_records_GET e patientId d) = Success (Some ?rs)"
      by (rule medical_records_GET_all [OF nofilter served])
    have b: "mset (map fst ?rs) = mset (medical_records d)"
      by (simp only: fst_expanded mset_order_desc)
    have c: "sorted (rev (map (\<lambda>x. mr_created_at (fst x)) ?rs))"
      by (simp only: key_expanded [of mr_created_at] sorted_order_desc)
    show ?thesis
      by (intro exI [of _ ?rs] conjI) (fact a, fact b, fact c)
  qed
  show "\<exists>rs. fst (anemia_detection_GET e patientId d) = Success (Some rs)
        \<and> mset (map fst rs) = mset (anemia_analyses d)
        \<and> sorted (rev (map (\<lambda>x. aa_created_at (fst x)) rs))"
  proof -
    let ?rs = "map (\<lambda>r. (r, patient_ref (users d) (Some (aa_patient_id r)))) (order_desc aa_created_at (anemia_analyses d))"
    have a: "fst (anemia_detection_GET e patientId d) = Success (Some ?rs)"
      by (rule anemia_detection_GET_all [OF nofilter served])
    have b: "mset (map fst ?rs) = mset (anemia_analyses d)"
      by (simp only: fst_expanded mset_order_desc)
    have c: "sorted (rev (map (\<lambda>x. aa_created_at (fst x)) ?rs))"
      by (simp only: key_expanded [of aa_created_at] sorted_order_desc)
    show ?thesis
      by (intro exI [of _ ?rs] conjI) (fact a, fact b, fact c)
  qed
qed


text \<open>The three listings of a store with three records of each kind.\<close>

theorem list_without_filter_witness:
  "\<not> truthy None \<and> read_fault env_ok = None \<and> length (health_records db_three) = 3
   \<and> (\<exists>rs. fst (health_records_GET env_ok None db_three) = Success (Some rs)
        \<and> mset (map fst rs) = mset (health_records db_three)
        \<and> sorted (rev (map (\<lambda>x. recorded_at (fst x)) rs)))
   \<and> (\<exists>rs. fst (medical_records_GET env_ok None db_three) = Success (Some rs)
        \<and> mset (map fst rs) = mset (medical_records db_three)
        \<and> sorted (rev (map (\<lambda>x. mr_created_at (fst x)) rs)))
   \<and> (\<exists>rs. fst (anemia_detection_GET env_ok None db_three) = Success (Some rs)
        \<and> mset (map fst rs) = mset (anemia_analyses db_three)
        \<and> sorted (rev (map (\<lambda>x. aa_created_at (fst x)) rs)))"
proof -
  have nofilter: "\<not> truthy None" by simp
  have served: "read_fault env_ok = None" by (simp add: env_ok_def)
  have three: "length (health_records db_three) = 3" by (simp add: db_three_def)
  from nofilter served have "\<not> truthy None \<and> read_fault env_ok = None" by (rule conjI)
  with list_without_filter [of None env_ok db_three]
  have all: "(\<exists>rs. fst (health_records_GET env_ok None db_three) = Success (Some rs)
        \<and> mset (map fst rs) = mset (health_records db_three)
        \<and> sorted (rev (map (\<lambda>x. recorded_at (fst x)) rs)))
   \<and> (\<exists>rs. fst (medical_records_GET env_ok None db_three) = Success (Some rs)
        \<and> mset (map fst rs) = mset (medical_records db_three)
        \<and> sorted (rev (map (\<lambda>x. mr_created_at (fst x)) rs)))
   \<and> (\<exists>rs. fst (anemia_detection_GET env_ok None db_three) = Success (Some rs)
        \<and> mset (map fst rs) = mset (anemia_analyses db_three)
        \<and> sorted (rev (map (\<lambda>x. aa_created_at (fst x)) rs)))"
    by (rule mp)
  show ?thesis
    by (intro conjI nofilter served three all [THEN conjunct1] all [THEN conjunct2, THEN conjunct1]
        all [THEN conjunct2, THEN conjunct2])
qed

text \<open>
  The scenario of three health records owned by two patients: the listing without a
  filter answers with all three, newest first.
\<close>

lemma three_records_two_patients:
  "fst (health_records_GET env_ok None db_three)
     = Success (Some [(vitals_2, None), (vitals_3, None), (vitals_1, None)])
   \<and> hr_patient_id vitals_1 \<noteq> hr_patient_id vitals_2"
  by (simp add: health_records_GET_def many_def order_desc_def patient_ref_def db_three_def
      env_ok_def dr_row_def vitals_1_def vitals_2_def vitals_3_def)

text \<open>
  Whatever the body holds, creating a medical record sends one insert to the store and
  never answers with status 400.
\<close>

lemma medical_create_any:
  "gw_log (snd (medical_records_POST e b d)) = gw_log d @ [InsertReq ''medical_records'']
   \<and> status (fst (medical_records_POST e b d)) \<noteq> 400"
  by (cases "write_fault e")
     (simp_all add: medical_records_POST_def medical_records_insert_single_def logged_def)


text \<open>
  C1. The handler for creating a medical record has no check of its own: a body without
  a title is sent to the store, which is reached and, when it accepts the row, the
  answer is a success with the stored row.
\<close>

theorem medical_create_untitled:
  "mb_title untitled_body = None
   \<and> medical_records_POST env_ok untitled_body db_empty
       = (Success (Some untitled_row),
          db_empty\<lparr>medical_records := [untitled_row],
                   gw_log := [InsertReq ''medical_records'']\<rparr>)"
  by (simp add: medical_records_POST_def medical_records_insert_single_def logged_def
      untitled_body_def untitled_row_def env_ok_def db_empty_def)

text \<open>
  C3, as stated, fails: an anemia form that names the patient and carries the image
  but no analysis type is rejected, with a message that lists no field.
\<close>

theorem anemia_needs_type_counterexample:
  "af_patient_id form_no_type = Some ''u-1'' \<and> af_image form_no_type = Some ''aGVsbG8=''
   \<and> anemia_detection_POST env_ok form_no_type db_empty
       = (Failure 400 ''Missing required fields'', db_empty)"
  by (simp add: anemia_detection_POST_def form_no_type_def)

text \<open>
  C3, amended. A health record whose body names the patient is inserted and returned
  as stored. An anemia analysis needs the image, the analysis type and the patient:
  when one of them is missing the request is rejected with status 400 and the one
  message \<open>Missing required fields\<close>, the store untouched; when all three are there
  the analysis is inserted and returned as stored.
\<close>

theorem create_required_fields:
  "(hb_patient_id b = Some p \<and> write_fault e = None \<longrightarrow>
      (\<exists>row. health_records_POST e b d =
          (Success (Some row),
           d\<lparr>health_records := health_records d @ [row],
             gw_log := gw_log d @ [InsertReq ''health_records'']\<rparr>)
        \<and> hr_patient_id row = Some p \<and> hr_id row = fresh_id e \<and> recorded_at row = now e))
   \<and> (af_image f = None \<or> \<not> truthy (af_analysis_type f) \<or> \<not> truthy (af_patient_id f) \<longrightarrow>
      anemia_detection_POST e f d = (Failure 400 ''Missing required fields'', d))
   \<and> (af_image f = Some img \<and> af_analysis_type f = Some ty \<and> ty \<noteq> []
       \<and> af_patient_id f = Some pid \<and> pid \<noteq> [] \<and> write_fault e = None \<longrightarrow>
      (\<exists>row res. anemia_detection_POST e f d =
          (Success (Some row, res),
           d\<lparr>anemia_analyses := anemia_analyses d @ [row],
             gw_log := gw_log d @ [InsertReq ''anemia_analyses'']\<rparr>)
        \<and> aa_patient_id row = pid \<and> analysis_type row = ty
        \<and> aa_id row = fresh_id e \<and> aa_created_at row = now e))"
  by (simp add: health_records_POST_def health_records_insert_single_def
      anemia_detection_POST_def anemia_analyses_insert_single_def logged_def Let_def)

text \<open>One body and two forms: the patient named, the type missing, all three there.\<close>

theorem create_required_fields_witness:
  "hb_patient_id vitals_body = Some ''u-1'' \<and> write_fault env_ok = None
   \<and> (\<exists>row. health_records_POST env_ok vitals_body db_empty =
          (Success (Some row),
           db_empty\<lparr>health_records := health_records db_empty @ [row],
             gw_log := gw_log db_empty @ [InsertReq ''health_records'']\<rparr>)
        \<and> hr_patient_id row = Some ''u-1'' \<and> hr_id row = fresh_id env_ok
        \<and> recorded_at row = now env_ok)
   \<and> \<not> truthy (af_analysis_type form_no_type)
   \<and> anemia_detection_POST env_ok form_no_type db_empty
       = (Failure 400 ''Missing required fields'', db_empty)
   \<and> af_image form_full = Some ''aGVsbG8='' \<and> af_analysis_type form_full = Some ''eye_anemia''
   \<and> af_patient_id form_full = Some ''u-1''
   \<and> (\<exists>row res. anemia_detection_POST env_ok form_full db_empty =
          (Success (Some row, res),
           db_empty\<lparr>anemia_analyses := anemia_analyses db_empty @ [row],
             gw_log := gw_log db_empty @ [InsertReq ''anemia_analyses'']\<rparr>)
        \<and> aa_patient_id row = ''u-1'' \<and> analysis_type row = ''eye_anemia''
        \<and> aa_id row = fresh_id env_ok \<and> aa_created_at row = now env_ok)"
proof -
  have pat: "hb_patient_id vitals_body = Some ''u-1''"
    by (simp add: vitals_body_def)
  have served: "write_fault env_ok = None"
    by (simp add: env_ok_def)
  have untyped: "\<not> truthy (af_analysis_type form_no_type)"
    by (simp add: form_no_type_def)
  have full: "af_image form_full = Some ''aGVsbG8=''"
    "af_analysis_type form_full = Some ''eye_anemia''" "af_patient_id form_full = Some ''u-1''"
    by (simp_all add: form_full_def)
  note first = create_required_fields [where b = vitals_body and p = "''u-1''" and e = env_ok
      and d = db_empty and f = form_no_type and img = "''aGVsbG8=''" and ty = "''eye_anemia''"
      and pid = "''u-1''"]
  note second = create_required_fields [where b = vitals_body and p = "''u-1''" and e = env_ok
      and d = db_empty and f = form_full and img = "''aGVsbG8=''" and ty = "''eye_anemia''"
      and pid = "''u-1''"]
  have a: "\<exists>row. health_records_POST env_ok vitals_body db_empty =
          (Success (Some row),
           db_empty\<lparr>health_records := health_records db_empty @ [row],
             gw_log := gw_log db_empty @ [InsertReq ''health_records'']\<rparr>)
        \<and> hr_patient_id row = Some ''u-1'' \<and> hr_id row = fresh_id env_ok
        \<and> recorded_at row = now env_ok"
    using first [THEN conjunct1] pat served by (simp only: simp_thms)
  have b: "anemia_detection_POST env_ok form_no_type db_empty
       = (Failure 400 ''Missing required fields'', db_empty)"
    using first [THEN conjunct2, THEN conjunct1] untyped by (simp only: simp_thms)
  have c: "\<exists>row res. anemia_detection_POST env_ok form_full db_empty =
          (Success (Some row, res),
           db_empty\<lparr>anemia_analyses := anemia_analyses db_empty @ [row],
             gw_log := gw_log db_empty @ [InsertReq ''anemia_analyses'']\<rparr>)
        \<and> aa_patient_id row = ''u-1'' \<and> analysis_type row = ''eye_anemia''
        \<and> aa_id row = fresh_id env_ok \<and> aa_created_at row = now env_ok"
    using second [THEN conjunct2, THEN conjunct2] full served by simp
  show ?thesis
    by (intro conjI pat served a untyped b full c)
qed

end
